theory Spec2Isabelle
  imports Main "HOL-Library.Word"
begin

section \<open>Values of the host language\<close>

text \<open>
  A string of the host language is a sequence of 16-bit code units, a byte array
  (\<open>Uint8Array\<close>) a sequence of 8-bit values.
\<close>

type_synonym unit16 = "16 word"
type_synonym jsstring = "unit16 list"
type_synonym byte = "8 word"

definition js :: "string \<Rightarrow> jsstring" where
  "js s = map (\<lambda>c. of_nat (of_char c)) s"

text \<open>
  A number is an IEEE double. The model keeps the special values apart and names a finite
  non-zero double by the decimal that \<open>Number::toString\<close> prints for it: the digits
  \<open>d\<^sub>1 \<dots> d\<^sub>k\<close> (first and last non-zero) and the exponent \<open>n\<close> with value
  \<open>0.d\<^sub>1 \<dots> d\<^sub>k \<times> 10\<^sup>n\<close>. The flag is the sign (\<open>True\<close> for negative). A parsed
  literal keeps its exact decimal; the rounding of a literal to the nearest double is not
  modelled.
\<close>

datatype jsnumber =
    NaN
  | Infinity bool
  | Zero bool
  | Finite bool "nat list" int

datatype jsvalue =
    JUndefined
  | JNull
  | JBool bool
  | JNumber jsnumber
  | JString jsstring
  | JArray "jsvalue list"
  | JObject "(jsstring \<times> jsvalue) list"

text \<open>
  An object is the list of its own enumerable properties in the order of their creation
  (the reordering of integer-like keys is not modelled). Reading a property that the
  object does not have gives \<open>undefined\<close>, as does reading a property of a primitive.
\<close>

fun get_prop :: "jsvalue \<Rightarrow> jsstring \<Rightarrow> jsvalue" where
  "get_prop (JObject ps) k = (case map_of ps k of None \<Rightarrow> JUndefined | Some v \<Rightarrow> v)"
| "get_prop _ k = JUndefined"

text \<open>\<open>!v\<close> is true for exactly the falsy values.\<close>

fun truthy :: "jsvalue \<Rightarrow> bool" where
  "truthy JUndefined = False"
| "truthy JNull = False"
| "truthy (JBool b) = b"
| "truthy (JNumber NaN) = False"
| "truthy (JNumber (Zero s)) = False"
| "truthy (JNumber _) = True"
| "truthy (JString s) = (s \<noteq> [])"
| "truthy (JArray xs) = True"
| "truthy (JObject ps) = True"

text \<open>The result type of \<open>neverthrow\<close>, and a computation that may throw.\<close>

datatype ('t, 'e) Result = Ok 't | Err 'e

datatype exn = SyntaxError

datatype 'a outcome = Returns 'a | Throws exn

definition try_catch :: "'a outcome \<Rightarrow> (exn \<Rightarrow> 'a outcome) \<Rightarrow> 'a outcome" where
  "try_catch body handler = (case body of Returns x \<Rightarrow> Returns x | Throws e \<Rightarrow> handler e)"

section \<open>Text encoding\<close>

text \<open>
  \<open>StringToCodePoints\<close> of ECMAScript: a leading surrogate followed by a trailing one is
  one code point, any other code unit is a code point of its own (an unpaired surrogate
  included).
\<close>

definition is_leading_surrogate :: "unit16 \<Rightarrow> bool" where
  "is_leading_surrogate c \<longleftrightarrow> 0xD800 \<le> c \<and> c \<le> 0xDBFF"

definition is_trailing_surrogate :: "unit16 \<Rightarrow> bool" where
  "is_trailing_surrogate c \<longleftrightarrow> 0xDC00 \<le> c \<and> c \<le> 0xDFFF"

definition is_surrogate_cp :: "nat \<Rightarrow> bool" where
  "is_surrogate_cp cp \<longleftrightarrow> 0xD800 \<le> cp \<and> cp \<le> 0xDFFF"

fun StringToCodePoints :: "jsstring \<Rightarrow> nat list" where
  "StringToCodePoints [] = []"
| "StringToCodePoints [c] = [unat c]"
| "StringToCodePoints (c # d # cs) =
     (if is_leading_surrogate c \<and> is_trailing_surrogate d
      then (0x10000 + (unat c - 0xD800) * 0x400 + (unat d - 0xDC00)) # StringToCodePoints cs
      else unat c # StringToCodePoints (d # cs))"

definition UTF16EncodeCodePoint :: "nat \<Rightarrow> jsstring" where
  "UTF16EncodeCodePoint cp =
     (if cp \<le> 0xFFFF then [of_nat cp]
      else [of_nat ((cp - 0x10000) div 0x400 + 0xD800), of_nat ((cp - 0x10000) mod 0x400 + 0xDC00)])"

text \<open>
  \<open>new TextEncoder().encode(s)\<close>: the argument is converted to a scalar value string
  (an unpaired surrogate becomes U+FFFD) and each scalar value is written in UTF-8.
  \<open>encode(undefined)\<close> is the empty array.
\<close>

definition to_scalar :: "nat \<Rightarrow> nat" where
  "to_scalar cp = (if is_surrogate_cp cp then 0xFFFD else cp)"

definition utf8_encode_cp :: "nat \<Rightarrow> byte list" where
  "utf8_encode_cp cp =
     (if cp \<le> 0x7F then [of_nat cp]
      else if cp \<le> 0x7FF then [of_nat (0xC0 + cp div 0x40), of_nat (0x80 + cp mod 0x40)]
      else if cp \<le> 0xFFFF then
        [of_nat (0xE0 + cp div 0x1000), of_nat (0x80 + cp div 0x40 mod 0x40),
         of_nat (0x80 + cp mod 0x40)]
      else
        [of_nat (0xF0 + cp div 0x40000), of_nat (0x80 + cp div 0x1000 mod 0x40),
         of_nat (0x80 + cp div 0x40 mod 0x40), of_nat (0x80 + cp mod 0x40)])"

definition TextEncoder_encode :: "jsstring option \<Rightarrow> byte list" where
  "TextEncoder_encode input =
     (case input of
        None \<Rightarrow> []
      | Some s \<Rightarrow> concat (map (\<lambda>cp. utf8_encode_cp (to_scalar cp)) (StringToCodePoints s)))"

text \<open>
  \<open>new TextDecoder().decode(data)\<close>: the UTF-8 decoder of the Encoding Standard in its
  default, non-fatal mode. The decoder is either between characters (\<open>Idle\<close>) or inside
  one: \<open>Need cp n lo hi\<close> holds the bits read so far, the number of bytes still needed and
  the range allowed for the next byte. A byte outside the range ends the character with
  U+FFFD and is read again as the start of the next one; input that ends inside a
  character gives one U+FFFD. A byte order mark at the start of the output is dropped.
\<close>

datatype utf8_state = Idle | Need nat nat nat nat

definition utf8_lead :: "byte \<Rightarrow> nat + utf8_state" where
  "utf8_lead b =
     (let n = unat b in
      if n \<le> 0x7F then Inl n
      else if 0xC2 \<le> n \<and> n \<le> 0xDF then Inr (Need (n mod 0x20) 1 0x80 0xBF)
      else if 0xE0 \<le> n \<and> n \<le> 0xEF then
        Inr (Need (n mod 0x10) 2 (if n = 0xE0 then 0xA0 else 0x80) (if n = 0xED then 0x9F else 0xBF))
      else if 0xF0 \<le> n \<and> n \<le> 0xF4 then
        Inr (Need (n mod 0x08) 3 (if n = 0xF0 then 0x90 else 0x80) (if n = 0xF4 then 0x8F else 0xBF))
      else Inl 0xFFFD)"

fun utf8_decoder :: "utf8_state \<Rightarrow> byte list \<Rightarrow> nat list" where
  "utf8_decoder Idle [] = []"
| "utf8_decoder (Need cp n lo hi) [] = [0xFFFD]"
| "utf8_decoder Idle (b # bs) =
     (case utf8_lead b of
        Inl cp \<Rightarrow> cp # utf8_decoder Idle bs
      | Inr st \<Rightarrow> utf8_decoder st bs)"
| "utf8_decoder (Need cp n lo hi) (b # bs) =
     (if unat b < lo \<or> hi < unat b then
        0xFFFD # (case utf8_lead b of
                    Inl cp' \<Rightarrow> cp' # utf8_decoder Idle bs
                  | Inr st \<Rightarrow> utf8_decoder st bs)
      else if n = 1 then (cp * 0x40 + unat b mod 0x40) # utf8_decoder Idle bs
      else utf8_decoder (Need (cp * 0x40 + unat b mod 0x40) (n - 1) 0x80 0xBF) bs)"

fun strip_bom :: "nat list \<Rightarrow> nat list" where
  "strip_bom [] = []"
| "strip_bom (cp # cps) = (if cp = 0xFEFF then cps else cp # cps)"

definition TextDecoder_decode :: "byte list \<Rightarrow> jsstring" where
  "TextDecoder_decode data = concat (map UTF16EncodeCodePoint (strip_bom (utf8_decoder Idle data)))"

section \<open>Constants of \<open>protocol.ts\<close>\<close>

definition NETWORK_TOPIC_PRIMARY :: jsstring where
  "NETWORK_TOPIC_PRIMARY = js ''f_network_topic_primary''"

definition NETWORK_TOPIC_CONTACT :: jsstring where
  "NETWORK_TOPIC_CONTACT = js ''f_network_topic_contact''"

definition GOSSIP_CONTACT_INTERVAL :: int where
  "GOSSIP_CONTACT_INTERVAL = 10000"

definition GOSSIP_TOPICS :: "jsstring list" where
  "GOSSIP_TOPICS = [NETWORK_TOPIC_CONTACT, NETWORK_TOPIC_PRIMARY]"

section \<open>Properties\<close>

text \<open>
  C7: the primary topic is the string \<open>f_network_topic_primary\<close>, the contact topic the
  string \<open>f_network_topic_contact\<close>, the registry \<open>GOSSIP_TOPICS\<close> is the two-element list
  of the contact topic followed by the primary topic, and the republish interval is 10000.
\<close>

theorem topic_constants:
  "NETWORK_TOPIC_PRIMARY = js ''f_network_topic_primary''
   \<and> NETWORK_TOPIC_CONTACT = js ''f_network_topic_contact''
   \<and> GOSSIP_TOPICS = [js ''f_network_topic_contact'', js ''f_network_topic_primary'']
   \<and> length GOSSIP_TOPICS = 2
   \<and> GOSSIP_CONTACT_INTERVAL = 10000"
  by (simp add: NETWORK_TOPIC_PRIMARY_def NETWORK_TOPIC_CONTACT_def GOSSIP_TOPICS_def
      GOSSIP_CONTACT_INTERVAL_def)

end
